theory Spec2Isabelle
  imports Main "HOL-Library.Log_Nat"
begin

section \<open>mediaaudit: the probe adapter, the directory walk and the CSV sink\<close>

text \<open>
  The repository holds two variants of one program: \<open>report.go\<close> together with the
  \<open>main\<close> of \<open>part_000\<close>, and the single-file variant \<open>part_001\<close>, whose
  \<open>Report\<close>, \<open>ToSlice\<close> and \<open>getReport\<close> are textually the ones of \<open>report.go\<close>.
  Go strings are byte strings and are modelled as \<open>string\<close>; Go's \<open>int\<close> is the
  64-bit signed integer and is modelled as \<open>int\<close> with the range written out where
  the library checks it.
\<close>

subsection \<open>Library functions the program calls: strings\<close>

text \<open>\<open>strings.HasSuffix\<close>.\<close>

definition HasSuffix :: "string \<Rightarrow> string \<Rightarrow> bool" where
  "HasSuffix s suf = (length suf \<le> length s \<and> drop (length s - length suf) s = suf)"

text \<open>\<open>strings.TrimSuffix\<close>: drops one trailing occurrence of the suffix, if present.\<close>

definition TrimSuffix :: "string \<Rightarrow> string \<Rightarrow> string" where
  "TrimSuffix s suf = (if HasSuffix s suf then take (length s - length suf) s else s)"

text \<open>
  \<open>strings.Split\<close> with a one-byte separator: the pieces between the separators,
  so a string with n separators gives n + 1 pieces and the empty string gives one
  empty piece.
\<close>

fun Split :: "string \<Rightarrow> char \<Rightarrow> string list" where
  "Split [] sep = [[]]"
| "Split (c # cs) sep =
     (if c = sep then [] # Split cs sep
      else (case Split cs sep of
              [] \<Rightarrow> [[c]]
            | w # ws \<Rightarrow> (c # w) # ws))"

subsection \<open>Library functions the program calls: strconv.Atoi\<close>

datatype num_err = ErrSyntax | ErrRange

text \<open>
  The errors \<open>getReport\<close> returns. \<open>ExecError\<close> is the error of \<open>cmd.Output()\<close>;
  \<open>MissingInfo path info\<close> and \<open>NoBitrate path info\<close> are the two \<open>fmt.Errorf\<close>
  values, holding the arguments formatted into the message (the path with \<open>%q\<close>, the
  fields with \<open>%v\<close>); \<open>NumError s e\<close> is \<open>strconv\<close>'s
  \<open>&NumError{Func: "Atoi", Num: s, Err: e}\<close>, whose message names the parsed text
  only.
\<close>

datatype error =
    ExecError string
  | MissingInfo string "string list"
  | NumError string num_err
  | NoBitrate string "string list"

definition digit_val :: "char \<Rightarrow> nat option" where
  "digit_val c =
     (let n = (of_char c :: nat) in if 48 \<le> n \<and> n \<le> 57 then Some (n - 48) else None)"

definition maxUint64 :: nat where
  "maxUint64 = 18446744073709551615"

text \<open>
  The digit loop of \<open>strconv.ParseUint\<close> at base 10 and 64 bits: a byte that is no
  digit is a syntax error; a prefix whose value leaves the unsigned 64-bit range is
  a range error, reported at once (before the bytes after it are looked at).
\<close>

fun ParseUint_loop :: "nat \<Rightarrow> string \<Rightarrow> num_err + nat" where
  "ParseUint_loop n [] = Inr n"
| "ParseUint_loop n (c # cs) =
     (case digit_val c of
        None \<Rightarrow> Inl ErrSyntax
      | Some d \<Rightarrow>
          if n \<ge> maxUint64 div 10 + 1 then Inl ErrRange
          else if n * 10 + d > maxUint64 then Inl ErrRange
          else ParseUint_loop (n * 10 + d) cs)"

text \<open>
  \<open>strconv.Atoi\<close> on a 64-bit platform: an optional sign, then at least one decimal
  digit; the value must lie in \<open>[-2^63, 2^63 - 1]\<close>.
\<close>

definition Atoi :: "string \<Rightarrow> error + int" where
  "Atoi s =
     (if s = [] then Inl (NumError s ErrSyntax)
      else
        let neg = (hd s = CHR ''-'');
            body = (if hd s = CHR ''+'' \<or> hd s = CHR ''-'' then tl s else s)
        in if body = [] then Inl (NumError s ErrSyntax)
           else (case ParseUint_loop 0 body of
                   Inl e \<Rightarrow> Inl (NumError s e)
                 | Inr un \<Rightarrow>
                     if \<not> neg \<and> un \<ge> 2 ^ 63 then Inl (NumError s ErrRange)
                     else if neg \<and> un > 2 ^ 63 then Inl (NumError s ErrRange)
                     else Inr (if neg then - int un else int un)))"

subsection \<open>float64\<close>

text \<open>
  A finite \<open>float64\<close> as sign and magnitude; the magnitude is the rational the bits
  denote, so \<open>F64 True 0\<close> is the negative zero. Every value the program computes
  comes from a 64-bit integer through a division by 1048576, a multiplication and a
  division by 100 or 1000 and \<open>math.Round\<close>, so it is finite and normal: neither
  overflow nor the subnormal range is reached, and \<open>rnd64\<close> needs no bound on the
  exponent.
\<close>

datatype float64 = F64 (neg: bool) (mag: rat)


text \<open>Round to the nearest integer, ties to the even one.\<close>

definition round_half_even :: "rat \<Rightarrow> int" where
  "round_half_even r =
     (let f = \<lfloor>r\<rfloor>; d = r - of_int f
      in if d < 1 / 2 then f
         else if 1 / 2 < d then f + 1
         else if even f then f else f + 1)"

text \<open>
  The binary exponent of a positive rational \<open>x\<close>: the \<open>e\<close> with
  \<open>2^e \<le> x < 2^(e+1)\<close>, found from the bit lengths of numerator and denominator.
\<close>

definition fexp :: "rat \<Rightarrow> int" where
  "fexp x =
     (let (p, q) = quotient_of x;
          d = bitlen p - bitlen q
      in if 2 powi d \<le> x then d else d - 1)"

text \<open>
  IEEE 754 round-to-nearest-even of a non-negative magnitude to 53 significant bits.
\<close>

definition rnd64 :: "rat \<Rightarrow> rat" where
  "rnd64 x =
     (if x \<le> 0 then 0
      else let q = 2 powi (fexp x - 52)
           in of_int (round_half_even (x / q)) * q)"

text \<open>The conversion \<open>float64(i)\<close> of an integer.\<close>

definition f64_of_int :: "int \<Rightarrow> float64" where
  "f64_of_int i = F64 (i < 0) (rnd64 (of_int \<bar>i\<bar>))"

text \<open>Multiplication and division of finite values, the divisor not zero.\<close>

definition f64_mul :: "float64 \<Rightarrow> float64 \<Rightarrow> float64" where
  "f64_mul a b = F64 (neg a \<noteq> neg b) (rnd64 (mag a * mag b))"

definition f64_div :: "float64 \<Rightarrow> float64 \<Rightarrow> float64" where
  "f64_div a b = F64 (neg a \<noteq> neg b) (rnd64 (mag a / mag b))"

text \<open>
  \<open>math.Round\<close>: the nearest integer, halves away from zero, the sign kept (so a
  small negative value rounds to the negative zero).
\<close>

definition math_Round :: "float64 \<Rightarrow> float64" where
  "math_Round x = F64 (neg x) (of_int \<lfloor>mag x + 1 / 2\<rfloor>)"


subsection \<open>Library functions the program calls: fmt.Sprintf\<close>

fun digits_of :: "nat \<Rightarrow> nat \<Rightarrow> string" where
  "digits_of 0 n = []"
| "digits_of (Suc k) n = digits_of k (n div 10) @ [char_of (48 + n mod 10)]"

text \<open>The decimal digits of a natural number, without leading zeros; \<open>0\<close> is \<open>"0"\<close>.\<close>

definition nat_decimal :: "nat \<Rightarrow> string" where
  "nat_decimal n = (if n = 0 then ''0'' else digits_of (floorlog 10 n) n)"

text \<open>\<open>fmt.Sprintf("%d", i)\<close>.\<close>

definition Sprintf_d :: "int \<Rightarrow> string" where
  "Sprintf_d i = (if i < 0 then ''-'' @ nat_decimal (nat (- i)) else nat_decimal (nat i))"

text \<open>
  \<open>fmt.Sprintf("%.<prec>f", x)\<close> with \<open>prec > 0\<close>: the exact value rounded to
  \<open>prec\<close> decimals, a tie going to the even digit; the sign is printed for every
  negative value, also for one that rounds to zero.
\<close>

definition Sprintf_f :: "nat \<Rightarrow> float64 \<Rightarrow> string" where
  "Sprintf_f prec x =
     (let n = nat (round_half_even (mag x * 10 ^ prec))
      in (if neg x then ''-'' else '''')
         @ nat_decimal (n div 10 ^ prec) @ ''.'' @ digits_of prec (n mod 10 ^ prec))"

subsection \<open>report.go\<close>

definition reportHeaders :: "string list" where
  "reportHeaders = [''Codec'', ''SizeMB'', ''BitrateType'', ''BitrateMbps'', ''Width'', ''Height'']"

record Report =
  Name :: string
  Codec :: string
  SizeMB :: float64
  BitrateType :: string
  BitrateMbps :: float64
  Width :: int
  Height :: int

text \<open>The zero value \<open>Report{}\<close>.\<close>

definition zero_Report :: Report where
  "zero_Report =
     \<lparr>Name = [], Codec = [], SizeMB = F64 False 0, BitrateType = [],
      BitrateMbps = F64 False 0, Width = 0, Height = 0\<rparr>"

definition ToSlice :: "Report \<Rightarrow> string list" where
  "ToSlice r =
     [Codec r, Sprintf_f 2 (SizeMB r), BitrateType r, Sprintf_f 3 (BitrateMbps r),
      Sprintf_d (Width r), Sprintf_d (Height r)]"

text \<open>
  Line 76: \<open>math.Round((float64(bitrateInt)/1048576)*1000) / 1000\<close>. The constants
  convert to \<open>float64\<close> exactly.
\<close>

definition bitrateMbps :: "int \<Rightarrow> float64" where
  "bitrateMbps bitrateInt =
     f64_div
       (math_Round (f64_mul (f64_div (f64_of_int bitrateInt) (F64 False 1048576)) (F64 False 1000)))
       (F64 False 1000)"

text \<open>
  The bitrate priority chain of lines 53 to 69: the classification and the text to
  parse, or nothing when all four fields are empty.
\<close>

definition bitrate_choice :: "string list \<Rightarrow> (string \<times> string) option" where
  "bitrate_choice info =
     (if info ! 4 \<noteq> [] then Some (''Variable'', info ! 4)
      else if info ! 5 \<noteq> [] then Some (''Constant'', info ! 5)
      else if info ! 6 \<noteq> [] then Some (''Nominal'', info ! 6)
      else if info ! 0 \<noteq> [] then Some (''Overall'', info ! 0)
      else None)"

text \<open>
  \<open>getReport\<close>. The subprocess is the parameter \<open>run\<close>: the argument vector of
  the command to the bytes of its standard output, or to the error of
  \<open>cmd.Output()\<close>. The result is the pair the Go function returns: the pointer
  (\<open>None\<close> would be \<open>nil\<close>) and the error (\<open>None\<close> is \<open>nil\<close>). The indices are
  read only after the length was found to be 7.
\<close>

definition getReport ::
  "(string list \<Rightarrow> string + string) \<Rightarrow> string \<Rightarrow> string \<Rightarrow> Report option \<times> error option" where
  "getReport run path templateFilePath =
     (case run [''mediainfo'', ''--output=file://'' @ templateFilePath, path] of
        Inl e \<Rightarrow> (Some zero_Report, Some (ExecError e))
      | Inr bytes \<Rightarrow>
          let info = Split (TrimSuffix bytes [CHR 0x0A]) (CHR '','')
          in if length info \<noteq> 7 then (Some zero_Report, Some (MissingInfo path info))
             else
               let codec = info ! 1
               in (case Atoi (info ! 2) of
                     Inl e \<Rightarrow> (Some zero_Report, Some e)
                   | Inr width \<Rightarrow>
                       (case Atoi (info ! 3) of
                          Inl e \<Rightarrow> (Some zero_Report, Some e)
                        | Inr height \<Rightarrow>
                            (case bitrate_choice info of
                               None \<Rightarrow> (Some zero_Report, Some (NoBitrate path info))
                             | Some (bitrateType, bitrateString) \<Rightarrow>
                                 (case Atoi bitrateString of
                                    Inl e \<Rightarrow> (Some zero_Report, Some e)
                                  | Inr bitrateInt \<Rightarrow>
                                      (Some \<lparr>Name = [], Codec = codec, SizeMB = F64 False 0,
                                             BitrateType = bitrateType,
                                             BitrateMbps = bitrateMbps bitrateInt,
                                             Width = width, Height = height\<rparr>,
                                       None))))))"

subsection \<open>The environment of a run and the state of the process\<close>

text \<open>
  What \<open>os.Lstat\<close> and the directory listing find under the root: a regular file
  with its name and size in bytes, a directory with its name, the error of listing
  it (if any) and its entries in the sorted order \<open>filepath.Walk\<close> visits them, or
  an entry whose \<open>Lstat\<close> fails with the given error.
\<close>

datatype fsnode =
    File string int
  | Dir string "string option" "fsnode list"
  | NoStat string string

fun node_name :: "fsnode \<Rightarrow> string" where
  "node_name (File name sz) = name"
| "node_name (Dir name rerr cs) = name"
| "node_name (NoStat name e) = name"

record FileInfo =
  info_Name :: string
  info_Size :: int
  info_IsDir :: bool

record env =
  Args :: "string list"
  TempFile :: "string + string"
  Output :: "string list \<Rightarrow> string + string"
  root :: fsnode
  stdout_ok :: bool

text \<open>
  \<open>Args\<close> is \<open>os.Args\<close>; \<open>TempFile\<close> is what \<open>ioutil.TempFile\<close> returns (the
  error, or the name of the file); \<open>Output\<close> runs a command; \<open>root\<close> is the tree at
  \<open>os.Args[1]\<close>; \<open>stdout_ok\<close> tells whether a write to the standard output
  succeeds (it fails, for instance, on a closed descriptor or a full disk).
\<close>

datatype log_line =
    FatalLine string
  | AccessFailure string string
  | SkippingNonVideo string
  | ProbeError error
  | FlushFailed string error

text \<open>
  The lines written through \<open>log\<close> to the standard error, with the arguments of
  their format: \<open>log.Fatal(err)\<close>; "Prevent panic by handling failure accessing a
  path %q: %v" (path, error); "Skipping non-video file: %q" (name);
  \<open>log.Println(err.Error())\<close>; "Failed to flush writes to CSV when checking %q: %s"
  (name, \<open>err.Error()\<close>).
\<close>

datatype status = Running | Exit nat | Panicked

text \<open>
  The process: the rows that reached the standard output, the log, the rows held in
  the buffer of the \<open>csv.Writer\<close>, its sticky error, and whether the process runs,
  has exited or died of a run-time panic. The header is 55 bytes, below the 4096
  bytes at which the buffer would empty itself, and every other \<open>Write\<close> is followed
  by \<open>Flush\<close>; so rows stand for their bytes.
\<close>

record proc =
  stdout :: "string list list"
  stderr :: "log_line list"
  wbuf :: "string list list"
  werr :: bool
  status :: status

definition init_proc :: proc where
  "init_proc = \<lparr>stdout = [], stderr = [], wbuf = [], werr = False, status = Running\<rparr>"

definition log_Print :: "log_line \<Rightarrow> proc \<Rightarrow> proc" where
  "log_Print l st = st\<lparr>stderr := stderr st @ [l]\<rparr>"

text \<open>\<open>csv.Writer.Write\<close>: the row goes to the buffer, unless an earlier write failed.\<close>

definition csv_Write :: "string list \<Rightarrow> proc \<Rightarrow> proc" where
  "csv_Write row st = (if werr st then st else st\<lparr>wbuf := wbuf st @ [row]\<rparr>)"

text \<open>
  \<open>csv.Writer.Flush\<close>: the buffer goes to the stream; when the stream refuses it, the
  writer keeps the error.
\<close>

definition csv_Flush :: "bool \<Rightarrow> proc \<Rightarrow> proc" where
  "csv_Flush ok st =
     (if werr st \<or> wbuf st = [] then st
      else if ok then st\<lparr>stdout := stdout st @ wbuf st, wbuf := []\<rparr>
      else st\<lparr>werr := True\<rparr>)"

text \<open>\<open>filepath.Join\<close> of a cleaned directory path and an entry name.\<close>

definition Join :: "string \<Rightarrow> string \<Rightarrow> string" where
  "Join dir name = dir @ ''/'' @ name"

subsection \<open>The two main programs\<close>

text \<open>\<open>videoFileRegex\<close> is \<open>\.mp4$|\.mkv$|\.avi$|\.mov$\<close>: it matches a text that ends in one of the four.\<close>

definition videoFileRegex_MatchString :: "string \<Rightarrow> bool" where
  "videoFileRegex_MatchString s =
     (HasSuffix s ''.mp4'' \<or> HasSuffix s ''.mkv'' \<or> HasSuffix s ''.avi'' \<or> HasSuffix s ''.mov'')"

text \<open>\<open>subtitleFileRegex\<close> is \<open>\.srt$|\.idx$|\.sub$\<close>.\<close>

definition subtitleFileRegex_MatchString :: "string \<Rightarrow> bool" where
  "subtitleFileRegex_MatchString s =
     (HasSuffix s ''.srt'' \<or> HasSuffix s ''.idx'' \<or> HasSuffix s ''.sub'')"

text \<open>\<open>math.Round((float64(info.Size())/1048576)*100) / 100\<close>.\<close>

definition sizeMB :: "int \<Rightarrow> float64" where
  "sizeMB bytes =
     f64_div
       (math_Round (f64_mul (f64_div (f64_of_int bytes) (F64 False 1048576)) (F64 False 100)))
       (F64 False 100)"

text \<open>
  The magnitude both conversions compute from the magnitude \<open>n\<close> of the integer,
  \<open>k\<close> being 100 or 1000: every operation rounds to the nearest \<open>float64\<close>.
\<close>

definition scaled_mag :: "rat \<Rightarrow> int \<Rightarrow> rat" where
  "scaled_mag k n =
     rnd64 (of_int \<lfloor>rnd64 (rnd64 (rnd64 (of_int n) / 1048576) * k) + 1 / 2\<rfloor> / k)"

text \<open>
  The end of the goroutine, the same text in both files (\<open>part_000\<close> lines 84 to 99,
  \<open>part_001\<close> lines 83 to 96), with the \<open>report\<close> and the \<open>err\<close> that
  \<open>getReport\<close> returned. Storing into a nil \<open>report\<close> is a panic; so is
  \<open>err.Error()\<close> on a nil \<open>err\<close>, which is evaluated before \<open>log.Printf\<close> prints.
\<close>

definition write_row :: "env \<Rightarrow> FileInfo \<Rightarrow> Report option \<Rightarrow> error option \<Rightarrow> proc \<Rightarrow> proc" where
  "write_row E info report err st =
     (case report of
        None \<Rightarrow> st\<lparr>status := Panicked\<rparr>
      | Some r \<Rightarrow>
          let r = r\<lparr>SizeMB := sizeMB (info_Size info)\<rparr>;
              values = info_Name info # ToSlice r;
              st = csv_Flush (stdout_ok E) (csv_Write values st)
          in if werr st
             then (case err of
                     None \<Rightarrow> st\<lparr>status := Panicked\<rparr>
                   | Some e \<Rightarrow> log_Print (FlushFailed (info_Name info) e) st)
             else st)"

text \<open>The goroutine of \<open>part_000\<close>: after logging the error of the probe it returns.\<close>

definition part_000_task :: "env \<Rightarrow> string \<Rightarrow> string \<Rightarrow> FileInfo \<Rightarrow> proc \<Rightarrow> proc" where
  "part_000_task E tmpl path info st =
     (case getReport (Output E) path tmpl of
        (report, err) \<Rightarrow>
          (case err of
             Some e \<Rightarrow> log_Print (ProbeError e) st
           | None \<Rightarrow> write_row E info report err st))"

text \<open>The goroutine of \<open>part_001\<close>: after logging the error of the probe it goes on.\<close>

definition part_001_task :: "env \<Rightarrow> string \<Rightarrow> string \<Rightarrow> FileInfo \<Rightarrow> proc \<Rightarrow> proc" where
  "part_001_task E tmpl path info st =
     (case getReport (Output E) path tmpl of
        (report, err) \<Rightarrow>
          write_row E info report err
            (case err of
               Some e \<Rightarrow> log_Print (ProbeError e) st
             | None \<Rightarrow> st))"

text \<open>
  The function given to \<open>filepath.Walk\<close>, the same in both files but for the
  goroutine it starts. The goroutine runs under a semaphore and the rows are written
  under a mutex; here it runs to its end where it is started, which is one of the
  schedules. Reading a nil \<open>info\<close> would be a panic; \<open>Walk\<close> passes one only
  together with an error.
\<close>

definition walkFn ::
  "(string \<Rightarrow> FileInfo \<Rightarrow> proc \<Rightarrow> proc) \<Rightarrow> string \<Rightarrow> FileInfo option \<Rightarrow> string option \<Rightarrow> proc
     \<Rightarrow> string option \<times> proc" where
  "walkFn task path info err st =
     (case err of
        Some e \<Rightarrow> (Some e, log_Print (AccessFailure path e) st)
      | None \<Rightarrow>
          (case info of
             None \<Rightarrow> (None, st\<lparr>status := Panicked\<rparr>)
           | Some i \<Rightarrow>
               if info_IsDir i then (None, st)
               else if subtitleFileRegex_MatchString (info_Name i) then (None, st)
               else if \<not> videoFileRegex_MatchString (info_Name i)
                 then (None, log_Print (SkippingNonVideo (info_Name i)) st)
               else (None, task path i st)))"

text \<open>
  \<open>filepath.Walk\<close>: the function is called for the root and, in a directory that
  could be listed and for which it returned nil, for each entry in turn; the first
  error it returns ends the walk and is the result. A process that died makes no
  further call. The program never reads the size of a directory; it is given as 0.
\<close>

fun walk ::
    "(string \<Rightarrow> FileInfo option \<Rightarrow> string option \<Rightarrow> proc \<Rightarrow> string option \<times> proc)
       \<Rightarrow> string \<Rightarrow> fsnode \<Rightarrow> proc \<Rightarrow> string option \<times> proc"
  and walk_entries ::
    "(string \<Rightarrow> FileInfo option \<Rightarrow> string option \<Rightarrow> proc \<Rightarrow> string option \<times> proc)
       \<Rightarrow> string \<Rightarrow> fsnode list \<Rightarrow> proc \<Rightarrow> string option \<times> proc" where
  "walk fn path (File name sz) st =
     fn path (Some \<lparr>info_Name = name, info_Size = sz, info_IsDir = False\<rparr>) None st"
| "walk fn path (NoStat name e) st = fn path None (Some e) st"
| "walk fn path (Dir name rerr cs) st =
     (case fn path (Some \<lparr>info_Name = name, info_Size = 0, info_IsDir = True\<rparr>) rerr st of
        (err1, st1) \<Rightarrow>
          if rerr \<noteq> None \<or> err1 \<noteq> None \<or> status st1 \<noteq> Running then (err1, st1)
          else walk_entries fn path cs st1)"
| "walk_entries fn path [] st = (None, st)"
| "walk_entries fn path (c # cs) st =
     (case walk fn (Join path (node_name c)) c st of
        (err, st1) \<Rightarrow>
          if err \<noteq> None \<or> status st1 \<noteq> Running then (err, st1)
          else walk_entries fn path cs st1)"

definition headers :: "string list" where
  "headers = ''Name'' # reportHeaders"

text \<open>
  \<open>main\<close>, the same in both files but for the goroutine: \<open>os.Args[1]\<close> (a panic
  when it is missing), the temporary template file (\<open>log.Fatal\<close> when it cannot be
  made), the header row written to the \<open>csv.Writer\<close> and not flushed, the walk,
  whose result is dropped, and the wait for the goroutines.
\<close>

definition main_with ::
  "(env \<Rightarrow> string \<Rightarrow> string \<Rightarrow> FileInfo \<Rightarrow> proc \<Rightarrow> proc) \<Rightarrow> env \<Rightarrow> proc" where
  "main_with task E =
     (if length (Args E) < 2 then init_proc\<lparr>status := Panicked\<rparr>
      else
        let dirPath = Args E ! 1
        in (case TempFile E of
              Inl e \<Rightarrow> (log_Print (FatalLine e) init_proc)\<lparr>status := Exit 1\<rparr>
            | Inr tmpl \<Rightarrow>
                let st = csv_Write headers init_proc;
                    st = snd (walk (walkFn (task E tmpl)) dirPath (root E) st)
                in if status st = Running then st\<lparr>status := Exit 0\<rparr> else st))"

definition part_000_main :: "env \<Rightarrow> proc" where
  "part_000_main = main_with part_000_task"

definition part_001_main :: "env \<Rightarrow> proc" where
  "part_001_main = main_with part_001_task"

subsection \<open>Concrete runs\<close>

text \<open>A probe that prints the given bytes and exits with status 0, and one that fails.\<close>

definition probe_prints :: "string \<Rightarrow> string list \<Rightarrow> string + string" where
  "probe_prints bytes argv = Inr bytes"

definition probe_fails :: "string \<Rightarrow> string list \<Rightarrow> string + string" where
  "probe_fails msg argv = Inl msg"

text \<open>
  A run started as \<open>mediaaudit root\<close> whose temporary file could be made, with the
  given probe, tree and standard output.
\<close>

definition run_env :: "(string list \<Rightarrow> string + string) \<Rightarrow> fsnode \<Rightarrow> bool \<Rightarrow> env" where
  "run_env run tree ok =
     \<lparr>Args = [''mediaaudit'', ''root''], TempFile = Inr ''/tmp/mediaauditTemplate1'',
      Output = run, root = tree, stdout_ok = ok\<rparr>"

section \<open>The probe adapter\<close>

subsection \<open>What a call of getReport can return\<close>

lemma getReport_success:
  assumes "getReport run path tmpl = (rep, None)"
  shows "\<exists>bytes w h ty s v.
           run [''mediainfo'', ''--output=file://'' @ tmpl, path] = Inr bytes \<and>
           length (Split (TrimSuffix bytes [CHR 0x0A]) (CHR '','')) = 7 \<and>
           Atoi (Split (TrimSuffix bytes [CHR 0x0A]) (CHR '','') ! 2) = Inr w \<and>
           Atoi (Split (TrimSuffix bytes [CHR 0x0A]) (CHR '','') ! 3) = Inr h \<and>
           bitrate_choice (Split (TrimSuffix bytes [CHR 0x0A]) (CHR '','')) = Some (ty, s) \<and>
           Atoi s = Inr v \<and>
           rep = Some \<lparr>Name = [], Codec = Split (TrimSuffix bytes [CHR 0x0A]) (CHR '','') ! 1,
                       SizeMB = F64 False 0, BitrateType = ty, BitrateMbps = bitrateMbps v,
                       Width = w, Height = h\<rparr>"
  using assms
  by (auto simp: getReport_def Let_def split: sum.splits if_splits option.splits prod.splits)

lemma getReport_failure:
  assumes "getReport run path tmpl = (rep, Some e)"
  shows "rep = Some zero_Report"
  using assms
  by (auto simp: getReport_def Let_def split: sum.splits if_splits option.splits prod.splits)

lemma Atoi_range:
  assumes "Atoi s = Inr v"
  shows "- (2 ^ 63) \<le> v \<and> v < 2 ^ 63 \<and> (hd s \<noteq> CHR ''-'' \<longrightarrow> 0 \<le> v)"
  using assms
  by (auto simp: Atoi_def Let_def split: sum.splits if_splits)

lemma Atoi_error:
  assumes "Atoi s = Inl e"
  shows "\<exists>k. e = NumError s k"
  using assms
  by (auto simp: Atoi_def Let_def split: sum.splits if_splits)

lemmas eval_getReport =
  getReport_def probe_prints_def probe_fails_def TrimSuffix_def HasSuffix_def
  bitrate_choice_def Atoi_def digit_val_def maxUint64_def zero_Report_def

subsection \<open>The bitrate priority chain\<close>

text \<open>
  Claim C5. Whenever \<open>getReport\<close> succeeds on a probe output, that output has seven
  fields and the first non-empty one of the fields 4, 5, 6, 0 (in this order) decides
  the result: field 4 gives "Variable", else field 5 "Constant", else field 6
  "Nominal", else field 0 "Overall"; the bitrate is the conversion of the integer
  read from that very field, whatever the fields after it in the chain hold.
\<close>

theorem getReport_bitrate_priority:
  assumes ok: "getReport run path tmpl = (Some r, None)"
    and out: "run [''mediainfo'', ''--output=file://'' @ tmpl, path] = Inr bytes"
    and info: "info = Split (TrimSuffix bytes [CHR 0x0A]) (CHR '','')"
  shows "length info = 7 \<and>
         (info ! 4 \<noteq> [] \<longrightarrow>
            BitrateType r = ''Variable'' \<and>
            (\<exists>v. Atoi (info ! 4) = Inr v \<and> BitrateMbps r = bitrateMbps v)) \<and>
         (info ! 4 = [] \<and> info ! 5 \<noteq> [] \<longrightarrow>
            BitrateType r = ''Constant'' \<and>
            (\<exists>v. Atoi (info ! 5) = Inr v \<and> BitrateMbps r = bitrateMbps v)) \<and>
         (info ! 4 = [] \<and> info ! 5 = [] \<and> info ! 6 \<noteq> [] \<longrightarrow>
            BitrateType r = ''Nominal'' \<and>
            (\<exists>v. Atoi (info ! 6) = Inr v \<and> BitrateMbps r = bitrateMbps v)) \<and>
         (info ! 4 = [] \<and> info ! 5 = [] \<and> info ! 6 = [] \<longrightarrow>
            info ! 0 \<noteq> [] \<and> BitrateType r = ''Overall'' \<and>
            (\<exists>v. Atoi (info ! 0) = Inr v \<and> BitrateMbps r = bitrateMbps v))"
proof -
  from getReport_success [OF ok] out info
  obtain w h ty s v where len: "length info = 7"
    and ch: "bitrate_choice info = Some (ty, s)"
    and v: "Atoi s = Inr v"
    and r: "r = \<lparr>Name = [], Codec = info ! 1, SizeMB = F64 False 0, BitrateType = ty,
                 BitrateMbps = bitrateMbps v, Width = w, Height = h\<rparr>"
    by auto
  from ch v r len show ?thesis
    by (auto simp: bitrate_choice_def split: if_splits)
qed

text \<open>
  The theorem at four probe outputs, one for each link of the chain; in the first all
  four bitrate fields are filled and field 4 wins.
\<close>

theorem getReport_bitrate_priority_witness:
  "BitrateType (the (fst (getReport (probe_prints (''128000,AVC,1920,1080,2097152,777,555'' @ [CHR 0x0A]))
       ''movie.mp4'' ''/tmp/t''))) = ''Variable'' \<and>
   BitrateType (the (fst (getReport (probe_prints (''128000,AVC,1920,1080,,777,555'' @ [CHR 0x0A]))
       ''movie.mp4'' ''/tmp/t''))) = ''Constant'' \<and>
   BitrateType (the (fst (getReport (probe_prints (''128000,AVC,1920,1080,,,555'' @ [CHR 0x0A]))
       ''movie.mp4'' ''/tmp/t''))) = ''Nominal'' \<and>
   BitrateType (the (fst (getReport (probe_prints (''128000,AVC,1920,1080,,,'' @ [CHR 0x0A]))
       ''movie.mp4'' ''/tmp/t''))) = ''Overall''"
proof -
  let ?p = "''movie.mp4''" and ?t = "''/tmp/t''"
  let ?b1 = "''128000,AVC,1920,1080,2097152,777,555'' @ [CHR 0x0A]"
  let ?b2 = "''128000,AVC,1920,1080,,777,555'' @ [CHR 0x0A]"
  let ?b3 = "''128000,AVC,1920,1080,,,555'' @ [CHR 0x0A]"
  let ?b4 = "''128000,AVC,1920,1080,,,'' @ [CHR 0x0A]"
  have ok1: "getReport (probe_prints ?b1) ?p ?t =
      (Some (the (fst (getReport (probe_prints ?b1) ?p ?t))), None)"
    by (simp add: eval_getReport)
  have ok2: "getReport (probe_prints ?b2) ?p ?t =
      (Some (the (fst (getReport (probe_prints ?b2) ?p ?t))), None)"
    by (simp add: eval_getReport)
  have ok3: "getReport (probe_prints ?b3) ?p ?t =
      (Some (the (fst (getReport (probe_prints ?b3) ?p ?t))), None)"
    by (simp add: eval_getReport)
  have ok4: "getReport (probe_prints ?b4) ?p ?t =
      (Some (the (fst (getReport (probe_prints ?b4) ?p ?t))), None)"
    by (simp add: eval_getReport)
  have out: "probe_prints b [''mediainfo'', ''--output=file://'' @ ?t, ?p] = Inr b" for b
    by (simp add: probe_prints_def)
  have "BitrateType (the (fst (getReport (probe_prints ?b1) ?p ?t))) = ''Variable''"
    using getReport_bitrate_priority [OF ok1 out refl]
    by (simp add: TrimSuffix_def HasSuffix_def)
  moreover have "BitrateType (the (fst (getReport (probe_prints ?b2) ?p ?t))) = ''Constant''"
    using getReport_bitrate_priority [OF ok2 out refl]
    by (simp add: TrimSuffix_def HasSuffix_def)
  moreover have "BitrateType (the (fst (getReport (probe_prints ?b3) ?p ?t))) = ''Nominal''"
    using getReport_bitrate_priority [OF ok3 out refl]
    by (simp add: TrimSuffix_def HasSuffix_def)
  moreover have "BitrateType (the (fst (getReport (probe_prints ?b4) ?p ?t))) = ''Overall''"
    using getReport_bitrate_priority [OF ok4 out refl]
    by (simp add: TrimSuffix_def HasSuffix_def)
  ultimately show ?thesis
    by blast
qed

subsection \<open>Width and height\<close>

text \<open>
  Claim C6 as stated fails: \<open>strconv.Atoi\<close> reads a leading minus sign and
  \<open>getReport\<close> does not look at the sign of what it read. On the probe output
  \<open>,AVC,-1920,1080,1,,\<close> it succeeds with the width -1920.
\<close>

theorem getReport_negative_width_counterexample:
  "getReport (probe_prints ('',AVC,-1920,1080,1,,'' @ [CHR 0x0A])) ''movie.mp4'' ''/tmp/t'' =
     (Some \<lparr>Name = [], Codec = ''AVC'', SizeMB = F64 False 0, BitrateType = ''Variable'',
            BitrateMbps = bitrateMbps 1, Width = - 1920, Height = 1080\<rparr>, None) \<and>
   Width (the (fst (getReport (probe_prints ('',AVC,-1920,1080,1,,'' @ [CHR 0x0A]))
      ''movie.mp4'' ''/tmp/t''))) < 0"
  by (simp add: eval_getReport)

text \<open>
  Claim C6, amended. In every record \<open>getReport\<close> returns without error, the width
  and the height are the integers \<open>strconv.Atoi\<close> reads from the fields 2 and 3:
  signed 64-bit values, not negative when the field does not begin with a minus
  sign.
\<close>

theorem getReport_width_height:
  assumes ok: "getReport run path tmpl = (Some r, None)"
    and out: "run [''mediainfo'', ''--output=file://'' @ tmpl, path] = Inr bytes"
    and info: "info = Split (TrimSuffix bytes [CHR 0x0A]) (CHR '','')"
  shows "Atoi (info ! 2) = Inr (Width r) \<and> Atoi (info ! 3) = Inr (Height r) \<and>
         - (2 ^ 63) \<le> Width r \<and> Width r < 2 ^ 63 \<and>
         - (2 ^ 63) \<le> Height r \<and> Height r < 2 ^ 63 \<and>
         (hd (info ! 2) \<noteq> CHR ''-'' \<longrightarrow> 0 \<le> Width r) \<and>
         (hd (info ! 3) \<noteq> CHR ''-'' \<longrightarrow> 0 \<le> Height r)"
proof -
  from getReport_success [OF ok] out info
  have w: "Atoi (info ! 2) = Inr (Width r)" and h: "Atoi (info ! 3) = Inr (Height r)"
    by auto
  from Atoi_range [OF w] Atoi_range [OF h] w h show ?thesis
    by simp
qed

theorem getReport_width_height_witness:
  "0 \<le> Width (the (fst (getReport
       (probe_prints (''128000,AVC,1920,1080,2097152,,'' @ [CHR 0x0A])) ''movie.mp4'' ''/tmp/t''))) \<and>
   0 \<le> Height (the (fst (getReport
       (probe_prints (''128000,AVC,1920,1080,2097152,,'' @ [CHR 0x0A])) ''movie.mp4'' ''/tmp/t'')))"
proof -
  let ?p = "''movie.mp4''" and ?t = "''/tmp/t''"
  let ?b = "''128000,AVC,1920,1080,2097152,,'' @ [CHR 0x0A]"
  have ok: "getReport (probe_prints ?b) ?p ?t =
      (Some (the (fst (getReport (probe_prints ?b) ?p ?t))), None)"
    by (simp add: eval_getReport)
  have out: "probe_prints ?b [''mediainfo'', ''--output=file://'' @ ?t, ?p] = Inr ?b"
    by (simp add: probe_prints_def)
  show ?thesis
    using getReport_width_height [OF ok out refl]
    by (simp add: TrimSuffix_def HasSuffix_def)
qed

subsection \<open>The record returned beside an error\<close>

text \<open>
  Claim C10. Whatever the subprocess does, \<open>getReport\<close> never returns a nil
  pointer: beside an error it returns a pointer to the zero \<open>Report\<close> (empty codec
  and bitrate type, zero bitrate, width and height), and without an error a record
  whose bitrate type is one of Variable, Constant, Nominal, Overall.
\<close>

theorem getReport_never_nil:
  "(case getReport run path tmpl of
      (rep, Some e) \<Rightarrow> rep = Some zero_Report
    | (rep, None) \<Rightarrow>
        (\<exists>r. rep = Some r \<and>
           BitrateType r \<in> {''Variable'', ''Constant'', ''Nominal'', ''Overall''})) \<and>
   Codec zero_Report = [] \<and> BitrateType zero_Report = [] \<and>
   BitrateMbps zero_Report = F64 False 0 \<and> Width zero_Report = 0 \<and> Height zero_Report = 0"
proof -
  have "rep = Some zero_Report" if "getReport run path tmpl = (rep, Some e)" for rep e
    using that by (rule getReport_failure)
  moreover have "\<exists>r. rep = Some r \<and>
           BitrateType r \<in> {''Variable'', ''Constant'', ''Nominal'', ''Overall''}"
    if "getReport run path tmpl = (rep, None)" for rep
    using getReport_success [OF that]
    by (auto simp: bitrate_choice_def split: if_splits)
  ultimately show ?thesis
    by (auto simp: zero_Report_def split: prod.splits option.splits)
qed

theorem getReport_never_nil_witness:
  "fst (getReport (probe_fails ''exit status 1'') ''clip.mov'' ''/tmp/t'') = Some zero_Report \<and>
   snd (getReport (probe_fails ''exit status 1'') ''clip.mov'' ''/tmp/t'') =
     Some (ExecError ''exit status 1'') \<and>
   fst (getReport (probe_prints (''1,2,3'' @ [CHR 0x0A])) ''clip.mov'' ''/tmp/t'') = Some zero_Report \<and>
   fst (getReport (probe_prints ('',AVC,,,,,'' @ [CHR 0x0A])) ''clip.mov'' ''/tmp/t'') = Some zero_Report \<and>
   fst (getReport (probe_prints ('',AVC,1,1,,,'' @ [CHR 0x0A])) ''clip.mov'' ''/tmp/t'') = Some zero_Report \<and>
   fst (getReport (probe_prints ('',AVC,1,1,x,,'' @ [CHR 0x0A])) ''clip.mov'' ''/tmp/t'') = Some zero_Report"
proof -
  have e1: "snd (getReport (probe_fails ''exit status 1'') ''clip.mov'' ''/tmp/t'') =
      Some (ExecError ''exit status 1'')"
    by (simp add: getReport_def probe_fails_def)
  have e2: "snd (getReport (probe_prints (''1,2,3'' @ [CHR 0x0A])) ''clip.mov'' ''/tmp/t'') =
      Some (MissingInfo ''clip.mov'' [''1'', ''2'', ''3''])"
    by (simp add: eval_getReport)
  have e3: "snd (getReport (probe_prints ('',AVC,,,,,'' @ [CHR 0x0A])) ''clip.mov'' ''/tmp/t'') =
      Some (NumError [] ErrSyntax)"
    by (simp add: eval_getReport)
  have e4: "snd (getReport (probe_prints ('',AVC,1,1,,,'' @ [CHR 0x0A])) ''clip.mov'' ''/tmp/t'') =
      Some (NoBitrate ''clip.mov'' [[], ''AVC'', ''1'', ''1'', [], [], []])"
    by (simp add: eval_getReport)
  have e5: "snd (getReport (probe_prints ('',AVC,1,1,x,,'' @ [CHR 0x0A])) ''clip.mov'' ''/tmp/t'') =
      Some (NumError ''x'' ErrSyntax)"
    by (simp add: eval_getReport)
  have "fst (getReport run p t) = Some zero_Report" if "snd (getReport run p t) = Some e"
    for run p t e
    using getReport_never_nil [of run p t] that
    by (cases "getReport run p t") simp
  from this [OF e1] this [OF e2] this [OF e3] this [OF e4] this [OF e5] e1
  show ?thesis
    by blast
qed

section \<open>The walk\<close>

lemmas eval_main =
  main_with_def run_env_def init_proc_def csv_Write_def csv_Flush_def log_Print_def
  walkFn_def Join_def headers_def reportHeaders_def write_row_def ToSlice_def
  videoFileRegex_MatchString_def subtitleFileRegex_MatchString_def

lemma HasSuffix_same_length:
  assumes "HasSuffix s a" "HasSuffix s b" "length a = length b"
  shows "a = b"
  using assms by (auto simp: HasSuffix_def)

lemma video_not_subtitle:
  assumes "videoFileRegex_MatchString n"
  shows "\<not> subtitleFileRegex_MatchString n"
  using assms
  by (auto simp: videoFileRegex_MatchString_def subtitleFileRegex_MatchString_def
      dest: HasSuffix_same_length)

subsection \<open>Which files are probed\<close>

text \<open>
  Claim C8. For an entry that is no directory and was reached without error, the
  callback of the walk decides by the end of the name, the case of the letters
  counting: a name ending in .mp4, .mkv, .avi or .mov starts the task that probes the
  file; a name ending in .srt, .idx or .sub is passed over and nothing is logged
  (this test comes first); any other name is passed over with the line "Skipping
  non-video file".
\<close>

theorem walkFn_classifies:
  assumes i: "info_IsDir i = False" and n: "n = info_Name i"
  shows "(HasSuffix n ''.mp4'' \<or> HasSuffix n ''.mkv'' \<or> HasSuffix n ''.avi'' \<or> HasSuffix n ''.mov''
            \<longrightarrow> walkFn task path (Some i) None st = (None, task path i st)) \<and>
         (HasSuffix n ''.srt'' \<or> HasSuffix n ''.idx'' \<or> HasSuffix n ''.sub''
            \<longrightarrow> walkFn task path (Some i) None st = (None, st)) \<and>
         (\<not> (HasSuffix n ''.mp4'' \<or> HasSuffix n ''.mkv'' \<or> HasSuffix n ''.avi'' \<or> HasSuffix n ''.mov'' \<or>
              HasSuffix n ''.srt'' \<or> HasSuffix n ''.idx'' \<or> HasSuffix n ''.sub'')
            \<longrightarrow> walkFn task path (Some i) None st = (None, log_Print (SkippingNonVideo n) st))"
  using i n video_not_subtitle [of n]
  by (auto simp: walkFn_def videoFileRegex_MatchString_def subtitleFileRegex_MatchString_def)

text \<open>
  The theorem at four names: a video, a subtitle, a text file, and a video name in
  capitals, which counts as none of the two.
\<close>

theorem walkFn_classifies_witness:
  "walkFn (part_000_task (run_env (probe_fails ''exit status 1'') (File ''movie.mp4'' 1) True) ''/tmp/t'')
     ''movie.mp4'' (Some \<lparr>info_Name = ''movie.mp4'', info_Size = 1, info_IsDir = False\<rparr>) None init_proc =
     (None, part_000_task (run_env (probe_fails ''exit status 1'') (File ''movie.mp4'' 1) True) ''/tmp/t''
              ''movie.mp4'' \<lparr>info_Name = ''movie.mp4'', info_Size = 1, info_IsDir = False\<rparr> init_proc) \<and>
   walkFn (part_000_task (run_env (probe_fails ''exit status 1'') (File ''movie.mp4'' 1) True) ''/tmp/t'')
     ''show.srt'' (Some \<lparr>info_Name = ''show.srt'', info_Size = 1, info_IsDir = False\<rparr>) None init_proc =
     (None, init_proc) \<and>
   walkFn (part_000_task (run_env (probe_fails ''exit status 1'') (File ''movie.mp4'' 1) True) ''/tmp/t'')
     ''notes.txt'' (Some \<lparr>info_Name = ''notes.txt'', info_Size = 1, info_IsDir = False\<rparr>) None init_proc =
     (None, log_Print (SkippingNonVideo ''notes.txt'') init_proc) \<and>
   walkFn (part_000_task (run_env (probe_fails ''exit status 1'') (File ''movie.mp4'' 1) True) ''/tmp/t'')
     ''MOVIE.MP4'' (Some \<lparr>info_Name = ''MOVIE.MP4'', info_Size = 1, info_IsDir = False\<rparr>) None init_proc =
     (None, log_Print (SkippingNonVideo ''MOVIE.MP4'') init_proc)"
proof -
  let ?task = "part_000_task (run_env (probe_fails ''exit status 1'') (File ''movie.mp4'' 1) True) ''/tmp/t''"
  let ?i = "\<lambda>n. \<lparr>info_Name = n, info_Size = 1, info_IsDir = False\<rparr>"
  have "walkFn ?task ''movie.mp4'' (Some (?i ''movie.mp4'')) None init_proc =
      (None, ?task ''movie.mp4'' (?i ''movie.mp4'') init_proc)"
    using walkFn_classifies [of "?i ''movie.mp4''" "''movie.mp4''" ?task "''movie.mp4''" init_proc]
    by (simp add: HasSuffix_def)
  moreover have "walkFn ?task ''show.srt'' (Some (?i ''show.srt'')) None init_proc = (None, init_proc)"
    using walkFn_classifies [of "?i ''show.srt''" "''show.srt''" ?task "''show.srt''" init_proc]
    by (simp add: HasSuffix_def)
  moreover have "walkFn ?task ''notes.txt'' (Some (?i ''notes.txt'')) None init_proc =
      (None, log_Print (SkippingNonVideo ''notes.txt'') init_proc)"
    using walkFn_classifies [of "?i ''notes.txt''" "''notes.txt''" ?task "''notes.txt''" init_proc]
    by (simp add: HasSuffix_def)
  moreover have "walkFn ?task ''MOVIE.MP4'' (Some (?i ''MOVIE.MP4'')) None init_proc =
      (None, log_Print (SkippingNonVideo ''MOVIE.MP4'') init_proc)"
    using walkFn_classifies [of "?i ''MOVIE.MP4''" "''MOVIE.MP4''" ?task "''MOVIE.MP4''" init_proc]
    by (simp add: HasSuffix_def)
  ultimately show ?thesis
    by blast
qed

subsection \<open>An entry that cannot be accessed\<close>



section \<open>The tasks and the sink\<close>

lemma Sprintf_f_sizeMB_10: "Sprintf_f 2 (sizeMB 10) = ''0.00''"
  by code_simp

lemma Sprintf_f_sizeMB_10MiB: "Sprintf_f 2 (sizeMB 10485760) = ''10.00''"
  by code_simp

lemma Sprintf_f_bitrateMbps_2Mi: "Sprintf_f 3 (bitrateMbps 2097152) = ''2.000''"
  by code_simp

lemma Sprintf_f_zero: "Sprintf_f 3 (F64 False 0) = ''0.000''"
  by code_simp

lemma Sprintf_d_0: "Sprintf_d 0 = ''0''"
  by code_simp

lemma Sprintf_d_1920: "Sprintf_d 1920 = ''1920''"
  by code_simp

lemma Sprintf_d_1080: "Sprintf_d 1080 = ''1080''"
  by code_simp

subsection \<open>No bitrate field\<close>

text \<open>
  Claim C2 as stated fails: the width and the height are parsed before the bitrate
  fields are looked at. On the line \<open>,AVC,,,,,\<close> (seven fields, the fields 0, 4, 5
  and 6 empty) the error is the one of \<open>strconv.Atoi\<close> on the empty width, which
  names neither the path nor the bitrate.
\<close>

theorem getReport_no_bitrate_counterexample:
  "length (Split (TrimSuffix ('',AVC,,,,,'' @ [CHR 0x0A]) [CHR 0x0A]) (CHR '','')) = 7 \<and>
   getReport (probe_prints ('',AVC,,,,,'' @ [CHR 0x0A])) ''movie.mp4'' ''/tmp/t'' =
     (Some zero_Report, Some (NumError [] ErrSyntax)) \<and>
   snd (getReport (probe_prints ('',AVC,,,,,'' @ [CHR 0x0A])) ''movie.mp4'' ''/tmp/t'') \<noteq>
     Some (NoBitrate ''movie.mp4'' [[], ''AVC'', [], [], [], [], []])"
  by (simp add: eval_getReport)

text \<open>
  Claim C2, amended. On a probe output of seven fields whose fields 0, 4, 5 and 6
  are empty, \<open>getReport\<close> returns an error beside the zero record; the error is
  "Unable to get bitrate" with the path and the fields exactly when the fields 2 and
  3 both parse as integers. The goroutine of \<open>part_000\<close> then logs this error and
  nothing else happens: no row reaches the writer or the output, and the walk goes on
  with the entries after the file.
\<close>

theorem part_000_no_bitrate:
  assumes out: "Output E [''mediainfo'', ''--output=file://'' @ tmpl, path] = Inr bytes"
    and info: "info = Split (TrimSuffix bytes [CHR 0x0A]) (CHR '','')"
    and len: "length info = 7"
    and empty: "info ! 0 = []" "info ! 4 = []" "info ! 5 = []" "info ! 6 = []"
  shows "\<exists>e. getReport (Output E) path tmpl = (Some zero_Report, Some e) \<and>
           (e = NoBitrate path info \<longleftrightarrow>
              (\<exists>w h. Atoi (info ! 2) = Inr w \<and> Atoi (info ! 3) = Inr h)) \<and>
           part_000_task E tmpl path i st = log_Print (ProbeError e) st \<and>
           stdout (part_000_task E tmpl path i st) = stdout st \<and>
           wbuf (part_000_task E tmpl path i st) = wbuf st \<and>
           (videoFileRegex_MatchString name \<and> path = Join dir name \<and> status st = Running \<longrightarrow>
              walk_entries (walkFn (part_000_task E tmpl)) dir (File name sz # rest) st =
              walk_entries (walkFn (part_000_task E tmpl)) dir rest (log_Print (ProbeError e) st))"
proof -
  have "\<exists>e. getReport (Output E) path tmpl = (Some zero_Report, Some e) \<and>
           (e = NoBitrate path info \<longleftrightarrow>
              (\<exists>w h. Atoi (info ! 2) = Inr w \<and> Atoi (info ! 3) = Inr h))"
  proof (cases "Atoi (info ! 2)")
    case (Inl a)
    with out info len Atoi_error [OF Inl] show ?thesis
      by (auto simp: getReport_def)
  next
    case w: (Inr w)
    show ?thesis
    proof (cases "Atoi (info ! 3)")
      case (Inl a)
      with w out info len Atoi_error [OF Inl] show ?thesis
        by (auto simp: getReport_def)
    next
      case (Inr h)
      with w out info len empty show ?thesis
        by (auto simp: getReport_def bitrate_choice_def)
    qed
  qed
  then obtain e where g: "getReport (Output E) path tmpl = (Some zero_Report, Some e)"
    and e: "e = NoBitrate path info \<longleftrightarrow>
              (\<exists>w h. Atoi (info ! 2) = Inr w \<and> Atoi (info ! 3) = Inr h)"
    by blast
  have t: "part_000_task E tmpl p i' s = log_Print (ProbeError e) s" if "p = path" for p i' s
    using g that by (simp add: part_000_task_def)
  show ?thesis
    using g e t video_not_subtitle [of name]
    by (auto simp: walkFn_def log_Print_def)
qed

theorem part_000_no_bitrate_witness:
  "part_000_task
     (run_env (probe_prints ('',AVC,1920,1080,,,'' @ [CHR 0x0A]))
        (Dir ''root'' None [File ''movie.mp4'' 5, File ''b.mkv'' 1]) True)
     ''/tmp/t'' ''root/movie.mp4''
     \<lparr>info_Name = ''movie.mp4'', info_Size = 5, info_IsDir = False\<rparr> init_proc =
   log_Print (ProbeError (NoBitrate ''root/movie.mp4'' [[], ''AVC'', ''1920'', ''1080'', [], [], []]))
     init_proc \<and>
   walk_entries
     (walkFn (part_000_task
        (run_env (probe_prints ('',AVC,1920,1080,,,'' @ [CHR 0x0A]))
           (Dir ''root'' None [File ''movie.mp4'' 5, File ''b.mkv'' 1]) True) ''/tmp/t''))
     ''root'' [File ''movie.mp4'' 5, File ''b.mkv'' 1] init_proc =
   walk_entries
     (walkFn (part_000_task
        (run_env (probe_prints ('',AVC,1920,1080,,,'' @ [CHR 0x0A]))
           (Dir ''root'' None [File ''movie.mp4'' 5, File ''b.mkv'' 1]) True) ''/tmp/t''))
     ''root'' [File ''b.mkv'' 1]
     (log_Print (ProbeError (NoBitrate ''root/movie.mp4'' [[], ''AVC'', ''1920'', ''1080'', [], [], []]))
        init_proc)"
proof -
  let ?b = "'',AVC,1920,1080,,,'' @ [CHR 0x0A]"
  let ?E = "run_env (probe_prints ?b) (Dir ''root'' None [File ''movie.mp4'' 5, File ''b.mkv'' 1]) True"
  let ?i = "\<lparr>info_Name = ''movie.mp4'', info_Size = 5, info_IsDir = False\<rparr>"
  let ?info = "Split (TrimSuffix ?b [CHR 0x0A]) (CHR '','')"
  have info: "?info = [[], ''AVC'', ''1920'', ''1080'', [], [], []]"
    by (simp add: TrimSuffix_def HasSuffix_def)
  have out: "Output ?E [''mediainfo'', ''--output=file://'' @ ''/tmp/t'', ''root/movie.mp4''] = Inr ?b"
    by (simp add: run_env_def probe_prints_def)
  have parse: "\<exists>w h. Atoi (?info ! 2) = Inr w \<and> Atoi (?info ! 3) = Inr h"
    by (simp add: info eval_getReport)
  have pre: "videoFileRegex_MatchString ''movie.mp4'' \<and> ''root/movie.mp4'' = Join ''root'' ''movie.mp4'' \<and>
      status init_proc = Running"
    by (simp add: videoFileRegex_MatchString_def HasSuffix_def Join_def init_proc_def)
  from part_000_no_bitrate [OF out refl, where i = ?i and st = init_proc and name = "''movie.mp4''"
      and dir = "''root''" and sz = 5 and rest = "[File ''b.mkv'' 1]"] parse pre
  show ?thesis
    unfolding info by auto
qed

subsection \<open>One row or one error\<close>

text \<open>
  In \<open>part_000\<close>, while the output accepts writes, a task ends in exactly one of two
  ways: the error of the probe is logged and nothing is written, or the row of the
  file (after whatever the writer still held) reaches the output and nothing is
  logged.
\<close>

lemma part_000_task_row_or_error:
  assumes "\<not> werr st" and "stdout_ok E"
  shows "(\<exists>e. snd (getReport (Output E) path tmpl) = Some e \<and>
              part_000_task E tmpl path i st = log_Print (ProbeError e) st) \<or>
         (\<exists>r. getReport (Output E) path tmpl = (Some r, None) \<and>
              part_000_task E tmpl path i st =
                st\<lparr>stdout := stdout st @ wbuf st @
                               [info_Name i # ToSlice (r\<lparr>SizeMB := sizeMB (info_Size i)\<rparr>)],
                   wbuf := []\<rparr>)"
proof (cases "getReport (Output E) path tmpl")
  case (Pair rep err)
  show ?thesis
  proof (cases err)
    case None
    with Pair getReport_success [of "Output E" path tmpl rep] obtain r where "rep = Some r"
      by auto
    with Pair None assms show ?thesis
      by (simp add: part_000_task_def write_row_def csv_Write_def csv_Flush_def)
  next
    case (Some e)
    with Pair show ?thesis
      by (simp add: part_000_task_def)
  qed
qed

text \<open>
  In \<open>part_001\<close> a probe that fails is logged and the row is written all the same.
\<close>

lemma part_001_task_error_and_row:
  assumes "snd (getReport (Output E) path tmpl) = Some e" and "\<not> werr st" and "stdout_ok E"
  shows "part_001_task E tmpl path i st =
           st\<lparr>stdout := stdout st @ wbuf st @
                          [info_Name i # ToSlice (zero_Report\<lparr>SizeMB := sizeMB (info_Size i)\<rparr>)],
              stderr := stderr st @ [ProbeError e], wbuf := []\<rparr>"
proof (cases "getReport (Output E) path tmpl")
  case (Pair rep err)
  with assms(1) have err: "err = Some e" by simp
  with Pair getReport_failure [of "Output E" path tmpl rep e] have "rep = Some zero_Report"
    by simp
  with Pair err assms(2,3) show ?thesis
    by (simp add: part_001_task_def write_row_def csv_Write_def csv_Flush_def log_Print_def)
qed

text \<open>On the failing probe of \<open>clip.mov\<close>, \<open>part_000\<close> logs the error and writes no row.\<close>

lemma part_000_probe_failure:
  "part_000_main (run_env (probe_fails ''exit status 1'') (Dir ''root'' None [File ''clip.mov'' 10]) True) =
     \<lparr>stdout = [], stderr = [ProbeError (ExecError ''exit status 1'')], wbuf = [headers],
      werr = False, status = Exit 0\<rparr>"
  by (simp add: part_000_main_def part_000_task_def eval_main eval_getReport)

text \<open>
  Claim C1 holds of \<open>part_000\<close> and fails in \<open>part_001\<close>, whose goroutine lacks
  the \<open>return\<close> after logging the error of the probe: for \<open>clip.mov\<close>, whose probe
  exits with status 1, it logs the error and also writes a row, made of the zero
  record and the size of the file.
\<close>

theorem part_001_probe_failure_row_and_error:
  "part_001_main (run_env (probe_fails ''exit status 1'') (Dir ''root'' None [File ''clip.mov'' 10]) True) =
     \<lparr>stdout = [headers, [''clip.mov'', [], ''0.00'', [], ''0.000'', ''0'', ''0'']],
      stderr = [ProbeError (ExecError ''exit status 1'')], wbuf = [],
      werr = False, status = Exit 0\<rparr>"
  by (simp add: part_001_main_def part_001_task_def eval_main eval_getReport
      Sprintf_f_sizeMB_10 Sprintf_f_zero Sprintf_d_0)

subsection \<open>A tree without videos\<close>

text \<open>
  Claim C3 fails in both programs: the header row is written to the \<open>csv.Writer\<close>
  and left to the first goroutine to flush ("Don't bother flushing here, the
  goroutine will flush for us"). With \<open>show.srt\<close> alone under the root no goroutine
  runs; the header stays in the buffer of the writer and the standard output ends
  empty. Nothing is logged.
\<close>

theorem main_subtitle_only_no_header:
  "part_000_main (run_env (probe_fails ''exit status 1'') (Dir ''root'' None [File ''show.srt'' 10]) True) =
     \<lparr>stdout = [], stderr = [], wbuf = [headers], werr = False, status = Exit 0\<rparr> \<and>
   part_001_main (run_env (probe_fails ''exit status 1'') (Dir ''root'' None [File ''show.srt'' 10]) True) =
     \<lparr>stdout = [], stderr = [], wbuf = [headers], werr = False, status = Exit 0\<rparr>"
  by (simp add: part_000_main_def part_001_main_def eval_main HasSuffix_def)

subsection \<open>An output that refuses the row\<close>

text \<open>
  After a probe without error, a flush that fails ends the goroutine in a panic and
  leaves the log as it was.
\<close>

lemma write_row_flush_failure:
  assumes "\<not> werr st" and "\<not> stdout_ok E"
  shows "status (write_row E i (Some r) None st) = Panicked \<and>
         stderr (write_row E i (Some r) None st) = stderr st \<and>
         stdout (write_row E i (Some r) None st) = stdout st"
  using assms
  by (simp add: write_row_def csv_Write_def csv_Flush_def)

text \<open>
  Claim C4 fails in both programs: the line that logs the failed flush formats
  \<open>err.Error()\<close>, where \<open>err\<close> is the error of the probe, and after a successful
  probe that is nil. With an output that refuses writes, the task of \<open>movie.mp4\<close>
  ends in a panic before anything is logged, and the process dies with it.
\<close>

theorem main_flush_failure_panics:
  "part_000_main (run_env (probe_prints (''128000,AVC,1920,1080,2097152,,'' @ [CHR 0x0A]))
      (Dir ''root'' None [File ''movie.mp4'' 10485760, File ''b.mkv'' 1]) False) =
     \<lparr>stdout = [], stderr = [],
      wbuf = [headers, [''movie.mp4'', ''AVC'', ''10.00'', ''Variable'', ''2.000'', ''1920'', ''1080'']],
      werr = True, status = Panicked\<rparr> \<and>
   part_001_main (run_env (probe_prints (''128000,AVC,1920,1080,2097152,,'' @ [CHR 0x0A]))
      (Dir ''root'' None [File ''movie.mp4'' 10485760, File ''b.mkv'' 1]) False) =
     \<lparr>stdout = [], stderr = [],
      wbuf = [headers, [''movie.mp4'', ''AVC'', ''10.00'', ''Variable'', ''2.000'', ''1920'', ''1080'']],
      werr = True, status = Panicked\<rparr>"
  by (simp add: part_000_main_def part_001_main_def part_000_task_def part_001_task_def
      eval_main eval_getReport
      Sprintf_f_sizeMB_10MiB Sprintf_f_bitrateMbps_2Mi Sprintf_d_1920 Sprintf_d_1080)

section \<open>The conversions to megabytes and megabits\<close>

subsection \<open>Rounding is monotonic\<close>

















subsection \<open>The two conversions\<close>





lemma bitrateMbps_scaled: "bitrateMbps b = F64 (b < 0) (scaled_mag 1000 \<bar>b\<bar>)"
  by (simp add: bitrateMbps_def f64_div_def f64_mul_def math_Round_def f64_of_int_def scaled_mag_def)







end
